theory Spec2Isabelle
  imports Main "HOL-Library.Word"
begin

section \<open>DRM PRIME buffer sharing (drivers/gpu/drm/drm\_prime.c)\<close>

text \<open>
  A shallow embedding of \<^verbatim>\<open>drm_prime.c\<close>: the per-file registry of imported
  dma-bufs, the two ioctls that export a GEM object as a dma-buf file descriptor and import
  one back, and the helper that builds a scatter table from a page array.
\<close>

subsection \<open>Pointers and error codes\<close>

text \<open>
  OMAP4 is a 32-bit ARM platform: pointers, \<^verbatim>\<open>long\<close> and \<^verbatim>\<open>int\<close> are all
  32 bits wide. A pointer is its address. The error-pointer helpers are the ones of
  \<^verbatim>\<open>include/linux/err.h\<close>: an address in the last 4095 values of the address space
  encodes a negative errno, \<^verbatim>\<open>PTR_ERR\<close> is the cast of the address to \<^verbatim>\<open>long\<close>,
  \<^verbatim>\<open>ERR_PTR\<close> the cast back.
\<close>

type_synonym ptr = "32 word"
type_synonym u32 = "32 word"

definition NULL :: ptr where
  "NULL = 0"

definition MAX_ERRNO :: "32 word" where
  "MAX_ERRNO = 4095"

definition IS_ERR_VALUE :: "32 word \<Rightarrow> bool" where
  "IS_ERR_VALUE x = (x \<ge> - MAX_ERRNO)"

definition IS_ERR :: "ptr \<Rightarrow> bool" where
  "IS_ERR p = IS_ERR_VALUE p"

definition IS_ERR_OR_NULL :: "ptr \<Rightarrow> bool" where
  "IS_ERR_OR_NULL p = (p = NULL \<or> IS_ERR_VALUE p)"

definition PTR_ERR :: "ptr \<Rightarrow> int" where
  "PTR_ERR p = sint p"

definition ERR_PTR :: "int \<Rightarrow> ptr" where
  "ERR_PTR e = word_of_int e"

definition ENOENT :: int where "ENOENT = 2"
definition EBADF :: int where "EBADF = 9"
definition ENOMEM :: int where "ENOMEM = 12"
definition EINVAL :: int where "EINVAL = 22"
definition ENOSYS :: int where "ENOSYS = 38"

subsection \<open>The per-file registry\<close>

text \<open>
  \<^verbatim>\<open>struct drm_prime_member\<close> pairs a dma-buf address with the GEM handle that stands
  for it in this file. \<^verbatim>\<open>prime_fpriv->head\<close> is the list of members;
  \<^verbatim>\<open>list_add\<close> links a new member right after the head, so the newest member is
  first and \<^verbatim>\<open>list_for_each_entry\<close> visits the members front to back.
\<close>

record drm_prime_member =
  dma_buf :: ptr
  handle :: u32

type_synonym drm_prime_file_private = "drm_prime_member list"

definition drm_prime_init_file_private :: drm_prime_file_private where
  "drm_prime_init_file_private = []"

text \<open>The loop of \<^verbatim>\<open>drm_prime_destroy_file_private\<close> unlinks and frees the member it
  is at and goes on with the next one.\<close>

fun drm_prime_destroy_file_private :: "drm_prime_file_private \<Rightarrow> drm_prime_file_private" where
  "drm_prime_destroy_file_private [] = []"
| "drm_prime_destroy_file_private (member # safe) = drm_prime_destroy_file_private safe"

text \<open>\<^verbatim>\<open>member\<close> is what \<^verbatim>\<open>kmalloc\<close> returned: \<^verbatim>\<open>NULL\<close> when the allocation
  failed. The result is the return value and the list.\<close>

definition drm_prime_insert_fd_handle_mapping ::
  "ptr \<Rightarrow> drm_prime_file_private \<Rightarrow> ptr \<Rightarrow> u32 \<Rightarrow> int \<times> drm_prime_file_private" where
  "drm_prime_insert_fd_handle_mapping member prime_fpriv dmabuf hdl =
     (if member = NULL then (- ENOMEM, prime_fpriv)
      else (0, \<lparr>dma_buf = dmabuf, handle = hdl\<rparr> # prime_fpriv))"

text \<open>\<^verbatim>\<open>Inr h\<close> is the return value 0 with \<^verbatim>\<open>*handle = h\<close>; \<^verbatim>\<open>Inl e\<close> is the
  return value \<^verbatim>\<open>e\<close>, with \<^verbatim>\<open>*handle\<close> not written.\<close>

fun drm_prime_lookup_fd_handle_mapping :: "drm_prime_file_private \<Rightarrow> ptr \<Rightarrow> int + u32" where
  "drm_prime_lookup_fd_handle_mapping [] dmabuf = Inl (- ENOENT)"
| "drm_prime_lookup_fd_handle_mapping (member # rest) dmabuf =
     (if dma_buf member = dmabuf then Inr (handle member)
      else drm_prime_lookup_fd_handle_mapping rest dmabuf)"

fun drm_prime_remove_fd_handle_mapping :: "drm_prime_file_private \<Rightarrow> ptr \<Rightarrow> drm_prime_file_private" where
  "drm_prime_remove_fd_handle_mapping [] dmabuf = []"
| "drm_prime_remove_fd_handle_mapping (member # safe) dmabuf =
     (if dma_buf member = dmabuf then drm_prime_remove_fd_handle_mapping safe dmabuf
      else member # drm_prime_remove_fd_handle_mapping safe dmabuf)"

subsection \<open>The state the ioctls work on\<close>

text \<open>
  The ioctls call into the dma-buf layer, the GEM handle table and the driver. The state
  keeps what these calls change and the claims are about: the registry of the file
  (\<^verbatim>\<open>file_priv->prime\<close>), the \<^verbatim>\<open>export_dma_buf\<close> field, the reference count and
  the handle count of each GEM object (by address), the file reference count of each dma-buf
  (by address), the descriptors bound to dma-bufs, and the log of the calls made to the
  collaborators, oldest first.
\<close>

datatype call =
    Gem_object_lookup u32
  | Prime_export ptr u32
  | Dma_buf_fd ptr
  | Dma_buf_get int
  | Dma_buf_put ptr
  | Prime_import ptr
  | Gem_handle_create ptr
  | Gem_object_unreference ptr
  | Gem_object_handle_unreference ptr

record drm_state =
  prime :: drm_prime_file_private
  export_dma_buf :: "ptr \<Rightarrow> ptr"
  refcount :: "ptr \<Rightarrow> int"
  handle_count :: "ptr \<Rightarrow> int"
  f_count :: "ptr \<Rightarrow> int"
  fd_table :: "(int \<times> ptr) list"
  calls :: "call list"

text \<open>\<^verbatim>\<open>struct drm_prime_handle\<close>, the argument of both ioctls.\<close>

record drm_prime_handle =
  args_handle :: u32
  args_flags :: u32
  args_fd :: int

text \<open>
  The device: whether the driver sets the \<^verbatim>\<open>DRIVER_PRIME\<close> feature, and its two
  callbacks, \<^verbatim>\<open>None\<close> for a null function pointer. A callback is known by the pointer
  it returns.
\<close>

record drm_device =
  driver_prime :: bool
  prime_export :: "(ptr \<Rightarrow> u32 \<Rightarrow> ptr) option"
  prime_import :: "(ptr \<Rightarrow> ptr) option"

text \<open>
  What the rest of the kernel answers during one ioctl: the object the handle table holds
  for a handle (\<^verbatim>\<open>NULL\<close> for none), the return value and the handle of
  \<^verbatim>\<open>drm_gem_handle_create\<close> for an object, and the pointer the next \<^verbatim>\<open>kmalloc\<close>
  returns.
\<close>

record kernel =
  object_idr :: "u32 \<Rightarrow> ptr"
  handle_create :: "ptr \<Rightarrow> int \<times> u32"
  kmalloc :: ptr

definition log :: "call \<Rightarrow> drm_state \<Rightarrow> drm_state" where
  "log c s = s\<lparr>calls := calls s @ [c]\<rparr>"

text \<open>Modelled from the spec: the external handle table, \<^verbatim>\<open>drm_gem_object_lookup\<close>
  (\<^verbatim>\<open>lookup_object(session, local_handle) -> Option<LocalBufferObject>\<close>); the object
  found is returned with a reference taken for the caller.\<close>

definition drm_gem_object_lookup :: "kernel \<Rightarrow> u32 \<Rightarrow> drm_state \<Rightarrow> ptr \<times> drm_state" where
  "drm_gem_object_lookup k hdl s =
     (let obj = object_idr k hdl;
          s1 = log (Gem_object_lookup hdl) s
      in if obj = NULL then (NULL, s1)
         else (obj, s1\<lparr>refcount := (refcount s1)(obj := refcount s1 obj + 1)\<rparr>))"

text \<open>Modelled from the spec: the external handle table's reference decrement,
  \<^verbatim>\<open>drm_gem_object_unreference_unlocked\<close>.\<close>

definition drm_gem_object_unreference_unlocked :: "ptr \<Rightarrow> drm_state \<Rightarrow> drm_state" where
  "drm_gem_object_unreference_unlocked obj s =
     (let s1 = log (Gem_object_unreference obj) s
      in s1\<lparr>refcount := (refcount s1)(obj := refcount s1 obj - 1)\<rparr>)"

text \<open>Modelled from the spec: the external handle table,
  \<^verbatim>\<open>drm_gem_handle_create\<close> (\<^verbatim>\<open>create_handle(session, object) -> Result<LocalHandle, Error>\<close>);
  a handle that was created holds a handle count and a reference on the object.\<close>

definition drm_gem_handle_create :: "kernel \<Rightarrow> ptr \<Rightarrow> drm_state \<Rightarrow> int \<times> u32 \<times> drm_state" where
  "drm_gem_handle_create k obj s =
     (let (ret, hdl) = handle_create k obj;
          s1 = log (Gem_handle_create obj) s
      in if ret \<noteq> 0 then (ret, hdl, s1)
         else (0, hdl, s1\<lparr>handle_count := (handle_count s1)(obj := handle_count s1 obj + 1),
                          refcount := (refcount s1)(obj := refcount s1 obj + 1)\<rparr>))"

text \<open>Modelled from the spec: the handle table's teardown path for one handle,
  \<^verbatim>\<open>drm_gem_object_handle_unreference_unlocked\<close>; it gives back the handle count and
  the reference that the handle held.\<close>

definition drm_gem_object_handle_unreference_unlocked :: "ptr \<Rightarrow> drm_state \<Rightarrow> drm_state" where
  "drm_gem_object_handle_unreference_unlocked obj s =
     (let s1 = log (Gem_object_handle_unreference obj) s
      in s1\<lparr>handle_count := (handle_count s1)(obj := handle_count s1 obj - 1),
             refcount := (refcount s1)(obj := refcount s1 obj - 1)\<rparr>)"

text \<open>Modelled from the spec: the transport subsystem, \<^verbatim>\<open>dma_buf_get\<close>
  (\<^verbatim>\<open>resolve(descriptor) -> Result<ExternalBufferHandle, Error>\<close>, acquires a reference);
  a descriptor that is not bound gives the error pointer of \<^verbatim>\<open>-EBADF\<close>.\<close>

definition dma_buf_get :: "int \<Rightarrow> drm_state \<Rightarrow> ptr \<times> drm_state" where
  "dma_buf_get fd s =
     (let s1 = log (Dma_buf_get fd) s
      in case map_of (fd_table s1) fd of
           None \<Rightarrow> (ERR_PTR (- EBADF), s1)
         | Some dmabuf \<Rightarrow> (dmabuf, s1\<lparr>f_count := (f_count s1)(dmabuf := f_count s1 dmabuf + 1)\<rparr>))"

text \<open>Modelled from the spec: the transport subsystem, \<^verbatim>\<open>dma_buf_put\<close>
  (\<^verbatim>\<open>release(handle)\<close>).\<close>

definition dma_buf_put :: "ptr \<Rightarrow> drm_state \<Rightarrow> drm_state" where
  "dma_buf_put dmabuf s =
     (let s1 = log (Dma_buf_put dmabuf) s
      in s1\<lparr>f_count := (f_count s1)(dmabuf := f_count s1 dmabuf - 1)\<rparr>)"

text \<open>The descriptor \<^verbatim>\<open>get_unused_fd\<close> hands out: one above every descriptor in use.\<close>

fun get_unused_fd :: "(int \<times> ptr) list \<Rightarrow> int" where
  "get_unused_fd [] = 0"
| "get_unused_fd ((fd, file) # rest) = max (fd + 1) (get_unused_fd rest)"

text \<open>Modelled from the spec: the transport subsystem, \<^verbatim>\<open>dma_buf_fd\<close>
  (\<^verbatim>\<open>to_descriptor(handle) -> descriptor\<close>, acquires a reference transferred to the
  descriptor); it binds an unused descriptor to the dma-buf, and refuses a null dma-buf with
  \<^verbatim>\<open>-EINVAL\<close>.\<close>

definition dma_buf_fd :: "ptr \<Rightarrow> drm_state \<Rightarrow> int \<times> drm_state" where
  "dma_buf_fd dmabuf s =
     (let s1 = log (Dma_buf_fd dmabuf) s
      in if dmabuf = NULL then (- EINVAL, s1)
         else let fd = get_unused_fd (fd_table s1)
              in (fd, s1\<lparr>fd_table := (fd, dmabuf) # fd_table s1,
                         f_count := (f_count s1)(dmabuf := f_count s1 dmabuf + 1)\<rparr>))"

subsection \<open>Export: handle to descriptor\<close>

text \<open>
  The result of an ioctl is its return value, the argument structure as the ioctl leaves it,
  and the state. Every \<^verbatim>\<open>return\<close> of the source is a branch.
\<close>

definition drm_prime_handle_to_fd_ioctl ::
  "drm_device \<Rightarrow> kernel \<Rightarrow> drm_prime_handle \<Rightarrow> drm_state \<Rightarrow> int \<times> drm_prime_handle \<times> drm_state" where
  "drm_prime_handle_to_fd_ioctl dev k args s =
     (if \<not> driver_prime dev then (- EINVAL, args, s)
      else case prime_export dev of
        None \<Rightarrow> (- ENOSYS, args, s)
      | Some export \<Rightarrow>
          let (obj, s1) = drm_gem_object_lookup k (args_handle args) s
          in if obj = NULL then (- ENOENT, args, s1)
             else if export_dma_buf s1 obj \<noteq> NULL then
               let (fd, s2) = dma_buf_fd (export_dma_buf s1 obj) s1
               in (0, args\<lparr>args_fd := fd\<rparr>, s2)
             else
               let s2 = log (Prime_export obj (args_flags args)) s1;
                   s3 = s2\<lparr>export_dma_buf := (export_dma_buf s2)(obj := export obj (args_flags args))\<rparr>
               in if IS_ERR_OR_NULL (export_dma_buf s3 obj) then
                    let s4 = drm_gem_object_unreference_unlocked obj s3
                    in (PTR_ERR (export_dma_buf s4 obj), args, s4)
                  else
                    let (fd, s4) = dma_buf_fd (export_dma_buf s3 obj) s3
                    in (0, args\<lparr>args_fd := fd\<rparr>, s4))"

subsection \<open>Import: descriptor to handle\<close>

definition drm_prime_fd_to_handle_ioctl ::
  "drm_device \<Rightarrow> kernel \<Rightarrow> drm_prime_handle \<Rightarrow> drm_state \<Rightarrow> int \<times> drm_prime_handle \<times> drm_state" where
  "drm_prime_fd_to_handle_ioctl dev k args s =
     (if \<not> driver_prime dev then (- EINVAL, args, s)
      else case prime_import dev of
        None \<Rightarrow> (- ENOSYS, args, s)
      | Some import \<Rightarrow>
          let (dmabuf, s1) = dma_buf_get (args_fd args) s
          in if IS_ERR dmabuf then (PTR_ERR dmabuf, args, s1)
             else case drm_prime_lookup_fd_handle_mapping (prime s1) dmabuf of
               Inr hdl \<Rightarrow> (0, args\<lparr>args_handle := hdl\<rparr>, dma_buf_put dmabuf s1)
             | Inl ret0 \<Rightarrow>
                 let obj = import dmabuf;
                     s2 = log (Prime_import dmabuf) s1
                 in if IS_ERR_OR_NULL obj then (PTR_ERR obj, args, dma_buf_put dmabuf s2)
                    else
                      let (ret, hdl, s3) = drm_gem_handle_create k obj s2;
                          s4 = drm_gem_object_unreference_unlocked obj s3
                      in if ret \<noteq> 0 then (ret, args, dma_buf_put dmabuf s4)
                         else
                           let (ret, prime_fpriv) =
                                 drm_prime_insert_fd_handle_mapping (kmalloc k) (prime s4) dmabuf hdl;
                               s5 = s4\<lparr>prime := prime_fpriv\<rparr>
                           in if ret \<noteq> 0 then
                                (ret, args,
                                 dma_buf_put dmabuf (drm_gem_object_handle_unreference_unlocked obj s5))
                              else (0, args\<lparr>args_handle := hdl\<rparr>, s5))"

subsection \<open>Sequences of calls\<close>

text \<open>The same export ioctl issued \<open>n\<close> times in a row on the same handle and flags: the
  return value and argument structure of each call, in order, and the final state.\<close>

fun export_times ::
  "nat \<Rightarrow> drm_device \<Rightarrow> kernel \<Rightarrow> drm_prime_handle \<Rightarrow> drm_state \<Rightarrow>
     (int \<times> drm_prime_handle) list \<times> drm_state" where
  "export_times 0 dev k args s = ([], s)"
| "export_times (Suc n) dev k args s =
     (let (ret, args1, s1) = drm_prime_handle_to_fd_ioctl dev k args s;
          (rest, s2) = export_times n dev k args s1
      in ((ret, args1) # rest, s2))"

text \<open>The operations on the registry of one file: an import (with the device and the
  kernel's answers for that call), the removal of a dma-buf, and the teardown when the file
  is closed.\<close>

datatype registry_op =
    Import drm_device kernel drm_prime_handle
  | Remove ptr
  | Teardown

fun step :: "registry_op \<Rightarrow> drm_state \<Rightarrow> drm_state" where
  "step (Import dev k args) s = snd (snd (drm_prime_fd_to_handle_ioctl dev k args s))"
| "step (Remove dmabuf) s = s\<lparr>prime := drm_prime_remove_fd_handle_mapping (prime s) dmabuf\<rparr>"
| "step Teardown s = s\<lparr>prime := drm_prime_destroy_file_private (prime s)\<rparr>"

definition run :: "registry_op list \<Rightarrow> drm_state \<Rightarrow> drm_state" where
  "run ops s = fold step ops s"

text \<open>Which logged calls are invocations of the driver callbacks and of handle creation.\<close>

fun is_prime_export :: "call \<Rightarrow> bool" where
  "is_prime_export (Prime_export obj flags) = True"
| "is_prime_export c = False"

fun is_prime_import :: "call \<Rightarrow> bool" where
  "is_prime_import (Prime_import dmabuf) = True"
| "is_prime_import c = False"

fun is_handle_create :: "call \<Rightarrow> bool" where
  "is_handle_create (Gem_handle_create obj) = True"
| "is_handle_create c = False"

subsection \<open>Scatter table from pages\<close>

text \<open>
  A \<^verbatim>\<open>struct scatterlist\<close> entry as \<^verbatim>\<open>sg_set_page\<close> writes it: the page, the
  offset into it and the length. A \<^verbatim>\<open>struct sg_table\<close> is its entries, in order. The
  heap maps the address of each live \<^verbatim>\<open>sg_table\<close> to its contents.
\<close>

record scatterlist =
  sg_page :: ptr
  sg_offset :: u32
  sg_length :: u32

record sg_table =
  sgl :: "scatterlist list"

type_synonym sg_heap = "ptr \<rightharpoonup> sg_table"

definition sg_set_page :: "scatterlist \<Rightarrow> ptr \<Rightarrow> u32 \<Rightarrow> u32 \<Rightarrow> scatterlist" where
  "sg_set_page sg page len offset = sg\<lparr>sg_page := page, sg_offset := offset, sg_length := len\<rparr>"

text \<open>Modelled from the spec: the allocation of the descriptor, \<^verbatim>\<open>kzalloc\<close>; \<open>sg\<close> is
  the address the allocator returns, \<^verbatim>\<open>NULL\<close> when it fails, and the memory is zeroed.\<close>

definition kzalloc_sg_table :: "ptr \<Rightarrow> sg_heap \<Rightarrow> sg_heap" where
  "kzalloc_sg_table sg heap = (if sg = NULL then heap else heap(sg \<mapsto> \<lparr>sgl = []\<rparr>))"

text \<open>Modelled from the spec: the allocation of the segment table, \<^verbatim>\<open>sg_alloc_table\<close>;
  \<open>ret\<close> is its return value. On success the table has \<^verbatim>\<open>nents\<close> zeroed entries; on
  failure it has freed what it allocated and the table has none.\<close>

definition sg_alloc_table :: "int \<Rightarrow> ptr \<Rightarrow> int \<Rightarrow> sg_heap \<Rightarrow> sg_heap" where
  "sg_alloc_table ret sg nents heap =
     (if ret \<noteq> 0 then heap(sg \<mapsto> \<lparr>sgl = []\<rparr>)
      else heap(sg \<mapsto> \<lparr>sgl = replicate (nat nents) \<lparr>sg_page = NULL, sg_offset = 0, sg_length = 0\<rparr>\<rparr>))"

definition kfree :: "ptr \<Rightarrow> sg_heap \<Rightarrow> sg_heap" where
  "kfree sg heap = (if sg = NULL then heap else heap(sg := None))"

text \<open>The loop \<^verbatim>\<open>for_each_sg(sg->sgl, iter, nr_pages, i)\<close>: entry \<open>i\<close> of the table is
  set from \<^verbatim>\<open>pages[i]\<close>, for \<open>i\<close> from 0 while \<open>i < nr_pages\<close>.\<close>

function for_each_sg :: "ptr list \<Rightarrow> int \<Rightarrow> u32 \<Rightarrow> int \<Rightarrow> scatterlist list \<Rightarrow> scatterlist list" where
  "for_each_sg pages nr_pages PAGE_SIZE i table =
     (if i < nr_pages then
        for_each_sg pages nr_pages PAGE_SIZE (i + 1)
          (table[nat i := sg_set_page (table ! nat i) (pages ! nat i) PAGE_SIZE 0])
      else table)"
  by pat_completeness auto
termination
  by (relation "measure (\<lambda>(pages, nr_pages, PAGE_SIZE, i, table). nat (nr_pages - i))") auto

declare for_each_sg.simps [simp del]

text \<open>
  \<^verbatim>\<open>drm_prime_pages_to_sg\<close>. \<open>sg\<close> is what \<^verbatim>\<open>kzalloc\<close> returns and \<open>ret\<close> what
  \<^verbatim>\<open>sg_alloc_table\<close> returns; \<^verbatim>\<open>PAGE_SIZE\<close> is the page size of the platform. The
  result is the pointer returned and the heap. The loop reads \<^verbatim>\<open>sg->sgl\<close>, the table
  that \<^verbatim>\<open>sg_alloc_table\<close> has just written at \<open>sg\<close>, so the heap always holds it there.
  Reading \<^verbatim>\<open>pages[i]\<close> beyond the array is undefined in C; the properties below are
  stated for \<^verbatim>\<open>nr_pages\<close> equal to the number of pages.
\<close>

definition drm_prime_pages_to_sg ::
  "ptr \<Rightarrow> int \<Rightarrow> u32 \<Rightarrow> ptr list \<Rightarrow> int \<Rightarrow> sg_heap \<Rightarrow> ptr \<times> sg_heap" where
  "drm_prime_pages_to_sg sg ret PAGE_SIZE pages nr_pages heap =
     (let heap1 = kzalloc_sg_table sg heap
      in if sg = NULL then (NULL, kfree sg heap1)
         else
           let heap2 = sg_alloc_table ret sg nr_pages heap1
           in if ret \<noteq> 0 then (NULL, kfree sg heap2)
              else
                case heap2 sg of
                  None \<Rightarrow> (sg, heap2)
                | Some table \<Rightarrow>
                    (sg, heap2(sg \<mapsto> table\<lparr>sgl := for_each_sg pages nr_pages PAGE_SIZE 0 (sgl table)\<rparr>)))"

text \<open>The call counters of the driver callbacks and of handle creation, read off the log.\<close>

definition prime_export_count :: "drm_state \<Rightarrow> nat" where
  "prime_export_count s = length (filter is_prime_export (calls s))"

definition prime_import_count :: "drm_state \<Rightarrow> nat" where
  "prime_import_count s = length (filter is_prime_import (calls s))"

definition handle_create_count :: "drm_state \<Rightarrow> nat" where
  "handle_create_count s = length (filter is_handle_create (calls s))"

subsection \<open>Concrete inputs\<close>

text \<open>
  A file with an empty registry in which descriptors 3 and 4 both name the dma-buf at
  \<open>0x1000\<close>; a driver whose export callback returns the dma-buf at \<open>0x2000\<close> and whose
  import callback returns the object at \<open>0x3000\<close>; a kernel in which every handle names the
  object at \<open>0x4000\<close>, handle creation succeeds with handle 7 and \<^verbatim>\<open>kmalloc\<close> succeeds.
\<close>

definition state0 :: drm_state where
  "state0 = \<lparr>prime = [], export_dma_buf = (\<lambda>obj. NULL), refcount = (\<lambda>obj. 1),
             handle_count = (\<lambda>obj. 0), f_count = (\<lambda>dmabuf. 1),
             fd_table = [(3, 0x1000), (4, 0x1000)], calls = []\<rparr>"

definition dev0 :: drm_device where
  "dev0 = \<lparr>driver_prime = True, prime_export = Some (\<lambda>obj flags. 0x2000),
           prime_import = Some (\<lambda>dmabuf. 0x3000)\<rparr>"

definition kernel0 :: kernel where
  "kernel0 = \<lparr>object_idr = (\<lambda>hdl. 0x4000), handle_create = (\<lambda>obj. (0, 7)), kmalloc = 0x5000\<rparr>"

definition args0 :: drm_prime_handle where
  "args0 = \<lparr>args_handle = 0, args_flags = 0, args_fd = 3\<rparr>"

text \<open>The same file after the dma-buf at \<open>0x1000\<close> was imported as handle 7.\<close>

definition state1 :: drm_state where
  "state1 = state0\<lparr>prime := [\<lparr>dma_buf = 0x1000, handle = 7\<rparr>]\<rparr>"

text \<open>Drivers whose callbacks return \<^verbatim>\<open>NULL\<close>, and a kernel in which \<^verbatim>\<open>kmalloc\<close>
  fails.\<close>

definition dev_null :: drm_device where
  "dev_null = \<lparr>driver_prime = True, prime_export = Some (\<lambda>obj flags. NULL),
               prime_import = Some (\<lambda>dmabuf. NULL)\<rparr>"

definition kernel_nomem :: kernel where
  "kernel_nomem = kernel0\<lparr>kmalloc := NULL\<rparr>"

text \<open>The operations that may come between two imports of the dma-buf \<open>p\<close> in a file
  that stays open and keeps \<open>p\<close>: any import, and the removal of any other dma-buf.\<close>

fun keeps_member :: "ptr \<Rightarrow> registry_op \<Rightarrow> bool" where
  "keeps_member p (Import dev k args) = True"
| "keeps_member p (Remove dmabuf) = (dmabuf \<noteq> p)"
| "keeps_member p Teardown = False"

text \<open>The call counter of the driver's import callback for one dma-buf.\<close>

definition prime_import_count_of :: "ptr \<Rightarrow> drm_state \<Rightarrow> nat" where
  "prime_import_count_of p s = length (filter (\<lambda>c. c = Prime_import p) (calls s))"

text \<open>A file in which descriptors 3 and 4 name the dma-buf at \<open>0x1000\<close> and descriptor 5
  the dma-buf at \<open>0x6000\<close>, and a kernel in which handle creation gives handle 8.\<close>

definition state2 :: drm_state where
  "state2 = state0\<lparr>fd_table := [(3, 0x1000), (4, 0x1000), (5, 0x6000)]\<rparr>"

definition kernel1 :: kernel where
  "kernel1 = kernel0\<lparr>handle_create := (\<lambda>obj. (0, 8))\<rparr>"

section \<open>Properties\<close>

subsection \<open>Registry\<close>

lemma destroy_file_private_empty: "drm_prime_destroy_file_private prime_fpriv = []"
  by (induction prime_fpriv) simp_all

lemma lookup_miss_iff:
  "(\<exists>e. drm_prime_lookup_fd_handle_mapping prime_fpriv p = Inl e) \<longleftrightarrow> p \<notin> set (map dma_buf prime_fpriv)"
  by (induction prime_fpriv) auto

lemma lookup_miss_ENOENT:
  "drm_prime_lookup_fd_handle_mapping prime_fpriv p = Inl e \<Longrightarrow> e = - ENOENT"
  by (induction prime_fpriv) (auto split: if_splits)

lemma lookup_hit_member:
  "drm_prime_lookup_fd_handle_mapping prime_fpriv p = Inr h \<Longrightarrow>
     \<lparr>dma_buf = p, handle = h\<rparr> \<in> set prime_fpriv"
  by (induction prime_fpriv) (auto split: if_splits)

lemma remove_eq_filter:
  "drm_prime_remove_fd_handle_mapping prime_fpriv p = filter (\<lambda>m. dma_buf m \<noteq> p) prime_fpriv"
  by (induction prime_fpriv) simp_all

text \<open>
  C7. After \<^verbatim>\<open>drm_prime_destroy_file_private\<close> has run on any registry, the lookup of
  every dma-buf, inserted before or not, finds no member and returns \<^verbatim>\<open>-ENOENT\<close>: the
  teardown leaves no member in the list.
\<close>

theorem teardown_lookup_no_match:
  "drm_prime_lookup_fd_handle_mapping (drm_prime_destroy_file_private prime_fpriv) p = Inl (- ENOENT)
   \<and> drm_prime_destroy_file_private prime_fpriv = []"
  by (simp add: destroy_file_private_empty)

text \<open>
  C9. When the allocation of the member fails (\<^verbatim>\<open>kmalloc\<close> returns \<^verbatim>\<open>NULL\<close>),
  \<^verbatim>\<open>drm_prime_insert_fd_handle_mapping\<close> returns \<^verbatim>\<open>-ENOMEM\<close> and the registry is the
  one it was given: nothing added, changed or removed.
\<close>

theorem insert_alloc_failure_unchanged:
  "drm_prime_insert_fd_handle_mapping NULL prime_fpriv p h = (- ENOMEM, prime_fpriv)
   \<and> - ENOMEM = (-12 :: int)"
  by (simp add: drm_prime_insert_fd_handle_mapping_def ENOMEM_def)

subsection \<open>Pointers\<close>

lemma NULL_is_error_or_null: "IS_ERR_OR_NULL NULL"
  by (simp add: IS_ERR_OR_NULL_def)

lemma PTR_ERR_NULL: "PTR_ERR NULL = 0"
  by (simp add: PTR_ERR_def NULL_def)

lemma IS_ERR_not_NULL: "IS_ERR p \<Longrightarrow> p \<noteq> NULL"
  by (auto simp: IS_ERR_def IS_ERR_VALUE_def NULL_def MAX_ERRNO_def)

lemma PTR_ERR_nonzero: "p \<noteq> NULL \<Longrightarrow> PTR_ERR p \<noteq> 0"
  by (simp add: PTR_ERR_def NULL_def signed_eq_0_iff)

subsection \<open>Import\<close>

lemmas collaborator_defs = log_def dma_buf_get_def dma_buf_put_def drm_gem_handle_create_def
  drm_gem_object_unreference_unlocked_def drm_gem_object_handle_unreference_unlocked_def
  drm_gem_object_lookup_def dma_buf_fd_def

lemma lookup_miss:
  "p \<notin> set (map dma_buf prime_fpriv) \<Longrightarrow>
     drm_prime_lookup_fd_handle_mapping prime_fpriv p = Inl (- ENOENT)"
  by (induction prime_fpriv) auto

lemma lookup_hit:
  "p \<in> set (map dma_buf prime_fpriv) \<Longrightarrow>
     \<exists>h. drm_prime_lookup_fd_handle_mapping prime_fpriv p = Inr h"
  by (induction prime_fpriv) auto

lemma lookup_cons_same:
  "drm_prime_lookup_fd_handle_mapping (\<lparr>dma_buf = p, handle = h\<rparr> # prime_fpriv) p = Inr h"
  by simp

text \<open>The hit path: the descriptor's reference is taken and given back, the stored handle is
  returned, and nothing else is called.\<close>

lemma import_hit:
  assumes "driver_prime dev" and "prime_import dev = Some imp"
    and "map_of (fd_table s) (args_fd args) = Some p" and "\<not> IS_ERR p"
    and "drm_prime_lookup_fd_handle_mapping (prime s) p = Inr h"
  shows "drm_prime_fd_to_handle_ioctl dev k args s =
     (0, args\<lparr>args_handle := h\<rparr>,
      s\<lparr>calls := calls s @ [Dma_buf_get (args_fd args), Dma_buf_put p]\<rparr>)"
  using assms
  by (simp add: drm_prime_fd_to_handle_ioctl_def collaborator_defs Let_def fun_upd_idem)

text \<open>The miss path on which every step succeeds.\<close>

lemma import_miss_ok:
  assumes "driver_prime dev" and "prime_import dev = Some imp"
    and "map_of (fd_table s) (args_fd args) = Some p" and "\<not> IS_ERR p"
    and "p \<notin> set (map dma_buf (prime s))"
    and "\<not> IS_ERR_OR_NULL (imp p)" and "handle_create k (imp p) = (0, h)" and "kmalloc k \<noteq> NULL"
  shows "drm_prime_fd_to_handle_ioctl dev k args s =
     (0, args\<lparr>args_handle := h\<rparr>,
      s\<lparr>prime := \<lparr>dma_buf = p, handle = h\<rparr> # prime s,
        f_count := (f_count s)(p := f_count s p + 1),
        handle_count := (handle_count s)(imp p := handle_count s (imp p) + 1),
        calls := calls s @ [Dma_buf_get (args_fd args), Prime_import p, Gem_handle_create (imp p),
                   Gem_object_unreference (imp p)]\<rparr>)"
  using assms
  by (simp add: drm_prime_fd_to_handle_ioctl_def collaborator_defs Let_def lookup_miss
      drm_prime_insert_fd_handle_mapping_def)

text \<open>Whatever the call does, the registry it leaves is the one it found, or that one with a
  new member in front whose dma-buf was not in it.\<close>

lemma import_registry_cases:
  "prime (snd (snd (drm_prime_fd_to_handle_ioctl dev k args s))) = prime s
   \<or> (\<exists>p h. p \<notin> set (map dma_buf (prime s))
          \<and> prime (snd (snd (drm_prime_fd_to_handle_ioctl dev k args s)))
              = \<lparr>dma_buf = p, handle = h\<rparr> # prime s)"
proof -
  have miss: "p \<notin> set (map dma_buf (prime s))"
    if "drm_prime_lookup_fd_handle_mapping (prime s) p = Inl e" for p e
    using that lookup_miss_iff [of "prime s" p] by blast
  show ?thesis
    by (auto simp: drm_prime_fd_to_handle_ioctl_def collaborator_defs Let_def
        drm_prime_insert_fd_handle_mapping_def
        split: option.splits sum.splits prod.splits dest: miss)
qed

text \<open>
  C10. An import whose descriptor resolves to a dma-buf that is already in the registry of
  the file leaves the registry as it is, and calls neither the driver's import callback nor
  handle creation: both call counters are what they were. With the feature and the callback
  present it makes exactly two calls, \<^verbatim>\<open>dma_buf_get\<close> and \<^verbatim>\<open>dma_buf_put\<close>.
\<close>

theorem import_hit_frame:
  assumes "map_of (fd_table s) (args_fd args) = Some p"
    and "p \<in> set (map dma_buf (prime s))"
  shows "case drm_prime_fd_to_handle_ioctl dev k args s of (ret, args', s') \<Rightarrow>
           prime s' = prime s
           \<and> prime_import_count s' = prime_import_count s
           \<and> handle_create_count s' = handle_create_count s
           \<and> (driver_prime dev \<and> prime_import dev \<noteq> None \<and> \<not> IS_ERR p \<longrightarrow>
                ret = 0 \<and> calls s' = calls s @ [Dma_buf_get (args_fd args), Dma_buf_put p])"
proof -
  obtain h where "drm_prime_lookup_fd_handle_mapping (prime s) p = Inr h"
    using lookup_hit [OF assms(2)] by blast
  then show ?thesis
    using assms(1)
    by (auto simp: drm_prime_fd_to_handle_ioctl_def collaborator_defs Let_def
        prime_import_count_def handle_create_count_def split: option.splits)
qed

theorem import_hit_frame_witness:
  "map_of (fd_table state1) (args_fd args0) = Some 0x1000
   \<and> 0x1000 \<in> set (map dma_buf (prime state1))
   \<and> (case drm_prime_fd_to_handle_ioctl dev0 kernel0 args0 state1 of (ret, args', s') \<Rightarrow>
         prime s' = prime state1
         \<and> prime_import_count s' = prime_import_count state1
         \<and> handle_create_count s' = handle_create_count state1
         \<and> ret = 0 \<and> calls s' = [Dma_buf_get 3, Dma_buf_put 0x1000])"
proof -
  have fd: "map_of (fd_table state1) (args_fd args0) = Some 0x1000"
    by (simp add: state1_def state0_def args0_def)
  have hit: "0x1000 \<in> set (map dma_buf (prime state1))"
    by (simp add: state1_def state0_def)
  have valid: "driver_prime dev0 \<and> prime_import dev0 \<noteq> None \<and> \<not> IS_ERR 0x1000"
    by (simp add: dev0_def IS_ERR_def IS_ERR_VALUE_def MAX_ERRNO_def)
  have "calls state1 = []" "args_fd args0 = 3"
    by (simp_all add: state1_def state0_def args0_def)
  then show ?thesis
    using import_hit_frame [OF fd hit, of dev0 kernel0] fd hit valid
    by (auto split: prod.splits)
qed

text \<open>
  C5. An import that misses the registry and then fails at the driver's import callback
  (step 3), at handle creation (step 4) or at the registry insert (step 5) returns with the
  registry unchanged, so with no member for that dma-buf, and with the reference count of
  every dma-buf at its value from before the call. The calls are made in this order: the
  handle's reference is dropped before the reference on the dma-buf, which was acquired
  first and is released last.
\<close>

theorem import_rollback:
  assumes "driver_prime dev" and "prime_import dev = Some imp"
    and "map_of (fd_table s) (args_fd args) = Some p" and "\<not> IS_ERR p"
    and "p \<notin> set (map dma_buf (prime s))"
    and "IS_ERR_OR_NULL (imp p) \<or> fst (handle_create k (imp p)) \<noteq> 0 \<or> kmalloc k = NULL"
  shows "case drm_prime_fd_to_handle_ioctl dev k args s of (ret, args', s') \<Rightarrow>
           prime s' = prime s
           \<and> filter (\<lambda>m. dma_buf m = p) (prime s') = []
           \<and> f_count s' = f_count s
           \<and> calls s' = calls s @ [Dma_buf_get (args_fd args), Prime_import p]
               @ (if IS_ERR_OR_NULL (imp p) then []
                  else [Gem_handle_create (imp p), Gem_object_unreference (imp p)]
                    @ (if fst (handle_create k (imp p)) \<noteq> 0 then []
                       else [Gem_object_handle_unreference (imp p)]))
               @ [Dma_buf_put p]"
proof -
  have nomatch: "filter (\<lambda>m. dma_buf m = p) (prime s) = []"
    using assms(5) by (auto simp: filter_empty_conv)
  show ?thesis
    using assms nomatch
    by (auto simp: drm_prime_fd_to_handle_ioctl_def collaborator_defs Let_def lookup_miss
        drm_prime_insert_fd_handle_mapping_def ENOMEM_def split: prod.splits if_splits)
qed

theorem import_rollback_witness:
  "driver_prime dev0 \<and> prime_import dev0 = Some (\<lambda>dmabuf. 0x3000)
   \<and> map_of (fd_table state0) (args_fd args0) = Some 0x1000 \<and> \<not> IS_ERR 0x1000
   \<and> 0x1000 \<notin> set (map dma_buf (prime state0))
   \<and> kmalloc kernel_nomem = NULL
   \<and> (case drm_prime_fd_to_handle_ioctl dev0 kernel_nomem args0 state0 of (ret, args', s') \<Rightarrow>
         prime s' = [] \<and> f_count s' = f_count state0
         \<and> calls s' = [Dma_buf_get 3, Prime_import 0x1000, Gem_handle_create 0x3000,
              Gem_object_unreference 0x3000, Gem_object_handle_unreference 0x3000,
              Dma_buf_put 0x1000])"
proof -
  have h1: "driver_prime dev0" and h2: "prime_import dev0 = Some (\<lambda>dmabuf. 0x3000)"
    by (simp_all add: dev0_def)
  have h3: "map_of (fd_table state0) (args_fd args0) = Some 0x1000"
    by (simp add: state0_def args0_def)
  have h4: "\<not> IS_ERR 0x1000"
    by (simp add: IS_ERR_def IS_ERR_VALUE_def MAX_ERRNO_def)
  have h5: "0x1000 \<notin> set (map dma_buf (prime state0))"
    by (simp add: state0_def)
  have h6: "kmalloc kernel_nomem = NULL"
    by (simp add: kernel_nomem_def)
  then have h7: "IS_ERR_OR_NULL ((\<lambda>dmabuf. 0x3000) 0x1000)
      \<or> fst (handle_create kernel_nomem ((\<lambda>dmabuf. 0x3000) 0x1000)) \<noteq> 0
      \<or> kmalloc kernel_nomem = NULL"
    by simp
  have ok: "\<not> IS_ERR_OR_NULL 0x3000" "fst (handle_create kernel_nomem 0x3000) = 0"
    by (simp_all add: IS_ERR_OR_NULL_def IS_ERR_VALUE_def MAX_ERRNO_def NULL_def
        kernel_nomem_def kernel0_def)
  have "calls state0 = []" "prime state0 = []" "args_fd args0 = 3"
    by (simp_all add: state0_def args0_def)
  then show ?thesis
    using import_rollback [OF h1 h2 h3 h4 h5 h7] h1 h2 h3 h4 h5 h6 ok
    by (auto split: prod.splits)
qed

text \<open>A member already in the registry keeps answering the lookup of its dma-buf, with the
  same handle, across any later import and across the removal of any other dma-buf; such
  operations do not call the import callback for that dma-buf and leave the descriptors as
  they are.\<close>

lemma lookup_remove_other:
  "q \<noteq> p \<Longrightarrow>
     drm_prime_lookup_fd_handle_mapping (drm_prime_remove_fd_handle_mapping prime_fpriv q) p
       = drm_prime_lookup_fd_handle_mapping prime_fpriv p"
  by (induction prime_fpriv) auto

lemma IS_ERR_EBADF: "IS_ERR (ERR_PTR (- EBADF))"
  by (simp add: IS_ERR_def IS_ERR_VALUE_def ERR_PTR_def EBADF_def MAX_ERRNO_def)

lemma import_keeps_lookup:
  assumes "drm_prime_lookup_fd_handle_mapping (prime s) p = Inr h"
  shows "drm_prime_lookup_fd_handle_mapping
           (prime (snd (snd (drm_prime_fd_to_handle_ioctl dev k args s)))) p = Inr h"
proof -
  have "p \<in> set (map dma_buf (prime s))"
    using assms lookup_miss_iff [of "prime s" p] by auto
  then show ?thesis
    using import_registry_cases [of dev k args s] assms by auto
qed

lemma import_keeps_fd_table:
  "fd_table (snd (snd (drm_prime_fd_to_handle_ioctl dev k args s))) = fd_table s"
  by (simp add: drm_prime_fd_to_handle_ioctl_def collaborator_defs Let_def IS_ERR_EBADF
      drm_prime_insert_fd_handle_mapping_def ENOMEM_def
      split: option.splits sum.splits prod.splits)

lemma import_keeps_count:
  assumes "drm_prime_lookup_fd_handle_mapping (prime s) p = Inr h"
  shows "prime_import_count_of p (snd (snd (drm_prime_fd_to_handle_ioctl dev k args s)))
           = prime_import_count_of p s"
proof -
  have other: "q \<noteq> p" if "drm_prime_lookup_fd_handle_mapping (prime s) q = Inl e" for q e
    using that assms by auto
  show ?thesis
    by (auto simp: drm_prime_fd_to_handle_ioctl_def collaborator_defs Let_def IS_ERR_EBADF
        drm_prime_insert_fd_handle_mapping_def prime_import_count_of_def ENOMEM_def
        split: option.splits sum.splits prod.splits dest: other)
qed

lemma step_keeps_member:
  assumes "drm_prime_lookup_fd_handle_mapping (prime s) p = Inr h"
    and "keeps_member p operation"
  shows "drm_prime_lookup_fd_handle_mapping (prime (step operation s)) p = Inr h
         \<and> prime_import_count_of p (step operation s) = prime_import_count_of p s
         \<and> fd_table (step operation s) = fd_table s"
proof (cases operation)
  case (Import dev k args)
  then show ?thesis
    using import_keeps_lookup [OF assms(1)] import_keeps_count [OF assms(1)]
    by (simp add: import_keeps_fd_table)
next
  case (Remove dmabuf)
  then show ?thesis
    using assms by (simp add: lookup_remove_other prime_import_count_of_def)
next
  case Teardown
  then show ?thesis
    using assms(2) by simp
qed

lemma run_keeps_member:
  "drm_prime_lookup_fd_handle_mapping (prime s) p = Inr h \<Longrightarrow>
   \<forall>operation \<in> set ops. keeps_member p operation \<Longrightarrow>
     drm_prime_lookup_fd_handle_mapping (prime (run ops s)) p = Inr h
     \<and> prime_import_count_of p (run ops s) = prime_import_count_of p s
     \<and> fd_table (run ops s) = fd_table s"
  unfolding run_def
proof (induction ops arbitrary: s)
  case Nil
  then show ?case by simp
next
  case (Cons operation ops)
  have here: "drm_prime_lookup_fd_handle_mapping (prime (step operation s)) p = Inr h"
      "prime_import_count_of p (step operation s) = prime_import_count_of p s"
      "fd_table (step operation s) = fd_table s"
    using step_keeps_member [OF Cons.prems(1), of operation] Cons.prems(2) by simp_all
  have "\<forall>operation \<in> set ops. keeps_member p operation"
    using Cons.prems(2) by simp
  from Cons.IH [OF here(1) this] show ?case
    using here(2,3) by simp
qed

text \<open>
  C1. Two imports in the same file of descriptors that resolve to the same dma-buf. The
  dma-buf is not yet in the registry and the first import goes through (the driver returns
  an object, the handle is created, the member is allocated). Between the two, the file may
  see any sequence of other imports and of removals of other dma-bufs, so that the member
  may lie anywhere in the registry when the second import looks it up. Then both imports
  return 0 with the same handle; the driver's import callback is called for that dma-buf
  once, in the first import, and neither in between nor in the second import, which calls no
  import callback at all; the second import makes just two calls, \<^verbatim>\<open>dma_buf_get\<close> and
  the \<^verbatim>\<open>dma_buf_put\<close> that gives its reference back, so that it leaves every reference
  count as it found it.
\<close>

theorem import_dedup:
  assumes "driver_prime dev" and "prime_import dev = Some imp"
    and "map_of (fd_table s) (args_fd args1) = Some p"
    and "map_of (fd_table s) (args_fd args2) = Some p"
    and "\<not> IS_ERR p" and "p \<notin> set (map dma_buf (prime s))"
    and "\<not> IS_ERR_OR_NULL (imp p)" and "handle_create k1 (imp p) = (0, h)"
    and "kmalloc k1 \<noteq> NULL"
    and "\<forall>operation \<in> set ops. keeps_member p operation"
  shows "case drm_prime_fd_to_handle_ioctl dev k1 args1 s of (ret1, res1, s1) \<Rightarrow>
         case drm_prime_fd_to_handle_ioctl dev k2 args2 (run ops s1) of (ret2, res2, s2) \<Rightarrow>
           ret1 = 0 \<and> ret2 = 0 \<and> args_handle res1 = h \<and> args_handle res2 = h
           \<and> prime_import_count s1 = prime_import_count s + 1
           \<and> prime_import_count_of p s1 = prime_import_count_of p s + 1
           \<and> prime_import_count_of p (run ops s1) = prime_import_count_of p s1
           \<and> prime_import_count_of p s2 = prime_import_count_of p s1
           \<and> prime_import_count s2 = prime_import_count (run ops s1)
           \<and> calls s2 = calls (run ops s1) @ [Dma_buf_get (args_fd args2), Dma_buf_put p]
           \<and> f_count s2 = f_count (run ops s1)"
proof -
  let ?s1 = "s\<lparr>prime := \<lparr>dma_buf = p, handle = h\<rparr> # prime s,
        f_count := (f_count s)(p := f_count s p + 1),
        handle_count := (handle_count s)(imp p := handle_count s (imp p) + 1),
        calls := calls s @ [Dma_buf_get (args_fd args1), Prime_import p, Gem_handle_create (imp p),
                   Gem_object_unreference (imp p)]\<rparr>"
  let ?s2 = "run ops ?s1"
  have first: "drm_prime_fd_to_handle_ioctl dev k1 args1 s = (0, args1\<lparr>args_handle := h\<rparr>, ?s1)"
    using assms(1,2,3,5,6,7,8,9) by (rule import_miss_ok)
  have "drm_prime_lookup_fd_handle_mapping (prime ?s1) p = Inr h"
    by simp
  from run_keeps_member [OF this assms(10)]
  have hit: "drm_prime_lookup_fd_handle_mapping (prime ?s2) p = Inr h"
    and count: "prime_import_count_of p ?s2 = prime_import_count_of p ?s1"
    and fds: "fd_table ?s2 = fd_table ?s1"
    by simp_all
  have fd2: "map_of (fd_table ?s2) (args_fd args2) = Some p"
    using assms(4) fds by simp
  have second: "drm_prime_fd_to_handle_ioctl dev k2 args2 ?s2 =
      (0, args2\<lparr>args_handle := h\<rparr>,
       ?s2\<lparr>calls := calls ?s2 @ [Dma_buf_get (args_fd args2), Dma_buf_put p]\<rparr>)"
    using assms(1,2) fd2 assms(5) hit by (rule import_hit)
  have c1: "prime_import_count ?s1 = prime_import_count s + 1"
    and c2: "prime_import_count_of p ?s1 = prime_import_count_of p s + 1"
    by (simp_all add: prime_import_count_def prime_import_count_of_def)
  have c3: "prime_import_count_of p
       (?s2\<lparr>calls := calls ?s2 @ [Dma_buf_get (args_fd args2), Dma_buf_put p]\<rparr>)
       = prime_import_count_of p ?s2"
    and c4: "prime_import_count
       (?s2\<lparr>calls := calls ?s2 @ [Dma_buf_get (args_fd args2), Dma_buf_put p]\<rparr>)
       = prime_import_count ?s2"
    by (simp_all add: prime_import_count_def prime_import_count_of_def)
  show ?thesis
    unfolding first prod.case second
    using c1 c2 c3 c4 count by simp
qed

theorem import_dedup_witness:
  "driver_prime dev0 \<and> prime_import dev0 = Some (\<lambda>dmabuf. 0x3000)
   \<and> map_of (fd_table state2) (args_fd args0) = Some 0x1000
   \<and> map_of (fd_table state2) (args_fd (args0\<lparr>args_fd := 4\<rparr>)) = Some 0x1000
   \<and> \<not> IS_ERR 0x1000 \<and> 0x1000 \<notin> set (map dma_buf (prime state2))
   \<and> \<not> IS_ERR_OR_NULL 0x3000 \<and> handle_create kernel0 0x3000 = (0, 7) \<and> kmalloc kernel0 \<noteq> NULL
   \<and> keeps_member 0x1000 (Import dev0 kernel1 (args0\<lparr>args_fd := 5\<rparr>))
   \<and> keeps_member 0x1000 (Remove 0x9000)
   \<and> (case drm_prime_fd_to_handle_ioctl dev0 kernel0 args0 state2 of (ret1, res1, s1) \<Rightarrow>
         prime (run [Import dev0 kernel1 (args0\<lparr>args_fd := 5\<rparr>), Remove 0x9000] s1)
           = [\<lparr>dma_buf = 0x6000, handle = 8\<rparr>, \<lparr>dma_buf = 0x1000, handle = 7\<rparr>]
         \<and> (case drm_prime_fd_to_handle_ioctl dev0 kernel_nomem (args0\<lparr>args_fd := 4\<rparr>)
                   (run [Import dev0 kernel1 (args0\<lparr>args_fd := 5\<rparr>), Remove 0x9000] s1) of
               (ret2, res2, s2) \<Rightarrow>
                 ret1 = 0 \<and> ret2 = 0 \<and> args_handle res1 = 7 \<and> args_handle res2 = 7
                 \<and> prime_import_count_of 0x1000 s1 = 1
                 \<and> prime_import_count_of 0x1000 s2 = 1))"
proof -
  let ?ops = "[Import dev0 kernel1 (args0\<lparr>args_fd := 5\<rparr>), Remove 0x9000]"
  have h1: "driver_prime dev0" and h2: "prime_import dev0 = Some (\<lambda>dmabuf. 0x3000)"
    by (simp_all add: dev0_def)
  have h3: "map_of (fd_table state2) (args_fd args0) = Some 0x1000"
    and h4: "map_of (fd_table state2) (args_fd (args0\<lparr>args_fd := 4\<rparr>)) = Some 0x1000"
    by (simp_all add: state2_def state0_def args0_def)
  have h5: "\<not> IS_ERR 0x1000"
    by (simp add: IS_ERR_def IS_ERR_VALUE_def MAX_ERRNO_def)
  have h6: "0x1000 \<notin> set (map dma_buf (prime state2))"
    by (simp add: state2_def state0_def)
  have h7: "\<not> IS_ERR_OR_NULL ((\<lambda>dmabuf. 0x3000) 0x1000)"
    by (simp add: IS_ERR_OR_NULL_def IS_ERR_VALUE_def MAX_ERRNO_def NULL_def)
  have h8: "handle_create kernel0 ((\<lambda>dmabuf. 0x3000) 0x1000) = (0, 7)"
    and h9: "kmalloc kernel0 \<noteq> NULL"
    by (simp_all add: kernel0_def NULL_def)
  have h10: "\<forall>operation \<in> set ?ops. keeps_member 0x1000 operation"
    by simp
  have c0: "prime_import_count_of 0x1000 state2 = 0"
    by (simp add: prime_import_count_of_def state2_def state0_def)
  have behind: "prime (run ?ops (snd (snd (drm_prime_fd_to_handle_ioctl dev0 kernel0 args0 state2))))
      = [\<lparr>dma_buf = 0x6000, handle = 8\<rparr>, \<lparr>dma_buf = 0x1000, handle = 7\<rparr>]"
    by (simp add: run_def drm_prime_fd_to_handle_ioctl_def collaborator_defs Let_def
        drm_prime_insert_fd_handle_mapping_def
        state2_def state0_def dev0_def kernel0_def kernel1_def args0_def
        IS_ERR_def IS_ERR_OR_NULL_def IS_ERR_VALUE_def MAX_ERRNO_def NULL_def)
  show ?thesis
    using import_dedup [OF h1 h2 h3 h4 h5 h6 h7 h8 h9 h10, of kernel_nomem]
      h1 h2 h3 h4 h5 h6 h7 h8 h9 h10 c0 behind
    by (auto split: prod.splits)
qed

text \<open>What the import does with each kind of result of the driver's callback, on a miss: an
  error pointer goes back as its errno, which is not 0; \<^verbatim>\<open>NULL\<close> goes back as 0.\<close>

lemma import_callback_error_pointer:
  assumes "driver_prime dev" and "prime_import dev = Some imp"
    and "map_of (fd_table s) (args_fd args) = Some p" and "\<not> IS_ERR p"
    and "p \<notin> set (map dma_buf (prime s))" and "IS_ERR (imp p)"
  shows "fst (drm_prime_fd_to_handle_ioctl dev k args s) = PTR_ERR (imp p)"
    and "fst (drm_prime_fd_to_handle_ioctl dev k args s) \<noteq> 0"
  using assms IS_ERR_not_NULL [OF assms(6)]
  by (simp_all add: drm_prime_fd_to_handle_ioctl_def collaborator_defs Let_def lookup_miss
      IS_ERR_OR_NULL_def IS_ERR_def PTR_ERR_nonzero)

lemma import_callback_null:
  assumes "driver_prime dev" and "prime_import dev = Some imp"
    and "map_of (fd_table s) (args_fd args) = Some p" and "\<not> IS_ERR p"
    and "p \<notin> set (map dma_buf (prime s))" and "imp p = NULL"
  shows "drm_prime_fd_to_handle_ioctl dev k args s =
     (0, args, s\<lparr>calls := calls s @ [Dma_buf_get (args_fd args), Prime_import p, Dma_buf_put p]\<rparr>)"
  using assms
  by (simp add: drm_prime_fd_to_handle_ioctl_def collaborator_defs Let_def lookup_miss
      NULL_is_error_or_null PTR_ERR_NULL fun_upd_idem)

text \<open>
  C3. The driver's import callback returns \<^verbatim>\<open>NULL\<close> for the dma-buf at \<open>0x1000\<close>, which
  descriptor 3 names and the registry does not hold. The import takes the failure path: it
  calls \<^verbatim>\<open>dma_buf_put\<close> and the reference count is back at its value. But it returns
  \<^verbatim>\<open>PTR_ERR(NULL)\<close>, which is 0, the success value, and leaves \<^verbatim>\<open>args->handle\<close>
  as it was.
\<close>

theorem import_null_object_returns_success:
  "IS_ERR_OR_NULL (the (prime_import dev_null) 0x1000)
   \<and> fst (drm_prime_fd_to_handle_ioctl dev_null kernel0 args0 state0) = 0
   \<and> fst (snd (drm_prime_fd_to_handle_ioctl dev_null kernel0 args0 state0)) = args0
   \<and> f_count (snd (snd (drm_prime_fd_to_handle_ioctl dev_null kernel0 args0 state0)))
       = f_count state0
   \<and> calls (snd (snd (drm_prime_fd_to_handle_ioctl dev_null kernel0 args0 state0)))
       = [Dma_buf_get 3, Prime_import 0x1000, Dma_buf_put 0x1000]"
proof -
  have "drm_prime_fd_to_handle_ioctl dev_null kernel0 args0 state0 =
     (0, args0, state0\<lparr>calls := calls state0 @ [Dma_buf_get (args_fd args0), Prime_import 0x1000,
        Dma_buf_put 0x1000]\<rparr>)"
    by (rule import_callback_null [where imp = "\<lambda>dmabuf. NULL"])
      (simp_all add: dev_null_def state0_def args0_def IS_ERR_def IS_ERR_VALUE_def MAX_ERRNO_def)
  then show ?thesis
    by (simp add: dev_null_def NULL_is_error_or_null state0_def args0_def)
qed

subsection \<open>Export\<close>

text \<open>The three ways through the export of a handle that names an object: the wrapper is
  cached already; it is not and the driver returns a dma-buf; it is not and the driver
  returns an error pointer or \<^verbatim>\<open>NULL\<close>.\<close>

lemma export_cached:
  assumes "driver_prime dev" and "prime_export dev = Some exp"
    and "object_idr k (args_handle args) = obj" and "obj \<noteq> NULL"
    and "export_dma_buf s obj = w" and "w \<noteq> NULL"
  shows "drm_prime_handle_to_fd_ioctl dev k args s =
     (0, args\<lparr>args_fd := get_unused_fd (fd_table s)\<rparr>,
      s\<lparr>refcount := (refcount s)(obj := refcount s obj + 1),
        fd_table := (get_unused_fd (fd_table s), w) # fd_table s,
        f_count := (f_count s)(w := f_count s w + 1),
        calls := calls s @ [Gem_object_lookup (args_handle args), Dma_buf_fd w]\<rparr>)"
  using assms
  by (simp add: drm_prime_handle_to_fd_ioctl_def collaborator_defs Let_def)

lemma export_first:
  assumes "driver_prime dev" and "prime_export dev = Some exp"
    and "object_idr k (args_handle args) = obj" and "obj \<noteq> NULL"
    and "export_dma_buf s obj = NULL" and "exp obj (args_flags args) = w"
    and "\<not> IS_ERR_OR_NULL w"
  shows "drm_prime_handle_to_fd_ioctl dev k args s =
     (0, args\<lparr>args_fd := get_unused_fd (fd_table s)\<rparr>,
      s\<lparr>refcount := (refcount s)(obj := refcount s obj + 1),
        export_dma_buf := (export_dma_buf s)(obj := w),
        fd_table := (get_unused_fd (fd_table s), w) # fd_table s,
        f_count := (f_count s)(w := f_count s w + 1),
        calls := calls s @ [Gem_object_lookup (args_handle args),
                   Prime_export obj (args_flags args), Dma_buf_fd w]\<rparr>)"
  using assms
  by (simp add: drm_prime_handle_to_fd_ioctl_def collaborator_defs Let_def IS_ERR_OR_NULL_def)

lemma export_failed:
  assumes "driver_prime dev" and "prime_export dev = Some exp"
    and "object_idr k (args_handle args) = obj" and "obj \<noteq> NULL"
    and "export_dma_buf s obj = NULL" and "exp obj (args_flags args) = w"
    and "IS_ERR_OR_NULL w"
  shows "drm_prime_handle_to_fd_ioctl dev k args s =
     (PTR_ERR w, args,
      s\<lparr>export_dma_buf := (export_dma_buf s)(obj := w),
        calls := calls s @ [Gem_object_lookup (args_handle args),
                   Prime_export obj (args_flags args), Gem_object_unreference obj]\<rparr>)"
  using assms
  by (simp add: drm_prime_handle_to_fd_ioctl_def collaborator_defs Let_def fun_upd_idem)

text \<open>
  C4. The handle names the object at \<open>0x4000\<close>, which has no cached wrapper, and the
  driver's export callback returns \<^verbatim>\<open>NULL\<close>. The export takes the failure path: it
  drops the reference the lookup took, and the reference count of the object is back at its
  value. But it returns \<^verbatim>\<open>PTR_ERR(NULL)\<close>, which is 0, the success value, and leaves
  \<^verbatim>\<open>args->fd\<close> as it was.
\<close>

theorem export_null_wrapper_returns_success:
  "export_dma_buf state0 0x4000 = NULL
   \<and> IS_ERR_OR_NULL (the (prime_export dev_null) 0x4000 (args_flags args0))
   \<and> fst (drm_prime_handle_to_fd_ioctl dev_null kernel0 args0 state0) = 0
   \<and> fst (snd (drm_prime_handle_to_fd_ioctl dev_null kernel0 args0 state0)) = args0
   \<and> refcount (snd (snd (drm_prime_handle_to_fd_ioctl dev_null kernel0 args0 state0))) 0x4000
       = refcount state0 0x4000
   \<and> calls (snd (snd (drm_prime_handle_to_fd_ioctl dev_null kernel0 args0 state0)))
       = [Gem_object_lookup 0, Prime_export 0x4000 0, Gem_object_unreference 0x4000]"
proof -
  have "drm_prime_handle_to_fd_ioctl dev_null kernel0 args0 state0 =
     (PTR_ERR NULL, args0,
      state0\<lparr>export_dma_buf := (export_dma_buf state0)(0x4000 := NULL),
        calls := calls state0 @ [Gem_object_lookup (args_handle args0),
                   Prime_export 0x4000 (args_flags args0), Gem_object_unreference 0x4000]\<rparr>)"
    by (rule export_failed [where exp = "\<lambda>obj flags. NULL"])
      (simp_all add: dev_null_def kernel0_def state0_def NULL_def NULL_is_error_or_null [unfolded NULL_def])
  then show ?thesis
    by (simp add: dev_null_def NULL_is_error_or_null state0_def args0_def PTR_ERR_NULL)
qed

text \<open>An error pointer from the export callback goes back as its errno, which is not 0.\<close>

lemma export_callback_error_pointer:
  assumes "driver_prime dev" and "prime_export dev = Some exp"
    and "object_idr k (args_handle args) = obj" and "obj \<noteq> NULL"
    and "export_dma_buf s obj = NULL" and "IS_ERR (exp obj (args_flags args))"
  shows "fst (drm_prime_handle_to_fd_ioctl dev k args s) = PTR_ERR (exp obj (args_flags args))"
    and "fst (drm_prime_handle_to_fd_ioctl dev k args s) \<noteq> 0"
    and "refcount (snd (snd (drm_prime_handle_to_fd_ioctl dev k args s))) = refcount s"
proof -
  have "IS_ERR_OR_NULL (exp obj (args_flags args))"
    using assms(6) by (simp add: IS_ERR_OR_NULL_def IS_ERR_def)
  from export_failed [OF assms(1-5) refl this, of ]
  show "fst (drm_prime_handle_to_fd_ioctl dev k args s) = PTR_ERR (exp obj (args_flags args))"
    and "fst (drm_prime_handle_to_fd_ioctl dev k args s) \<noteq> 0"
    and "refcount (snd (snd (drm_prime_handle_to_fd_ioctl dev k args s))) = refcount s"
    using IS_ERR_not_NULL [OF assms(6)] by (simp_all add: PTR_ERR_nonzero)
qed

lemma map_of_append_same:
  "snd ` set pre \<subseteq> {w} \<Longrightarrow> map_of tbl fd = Some w \<Longrightarrow> map_of (pre @ tbl) fd = Some w"
  by (induction pre) auto

lemma export_times_cached:
  assumes "driver_prime dev" and "prime_export dev = Some exp"
    and "object_idr k (args_handle args) = obj" and "obj \<noteq> NULL"
    and "export_dma_buf s obj = w" and "w \<noteq> NULL"
  shows "case export_times n dev k args s of (results, s') \<Rightarrow>
           prime_export_count s' = prime_export_count s
           \<and> export_dma_buf s' = export_dma_buf s
           \<and> length results = n
           \<and> (\<exists>pre. fd_table s' = pre @ fd_table s \<and> snd ` set pre \<subseteq> {w})
           \<and> (\<forall>(ret, res) \<in> set results. ret = 0 \<and> map_of (fd_table s') (args_fd res) = Some w)"
  using assms(5)
proof (induction n arbitrary: s)
  case 0
  then show ?case by simp
next
  case (Suc n)
  let ?fd = "get_unused_fd (fd_table s)"
  let ?s1 = "s\<lparr>refcount := (refcount s)(obj := refcount s obj + 1),
        fd_table := (?fd, w) # fd_table s,
        f_count := (f_count s)(w := f_count s w + 1),
        calls := calls s @ [Gem_object_lookup (args_handle args), Dma_buf_fd w]\<rparr>"
  have step: "drm_prime_handle_to_fd_ioctl dev k args s = (0, args\<lparr>args_fd := ?fd\<rparr>, ?s1)"
    using assms(1-4) Suc.prems assms(6) by (rule export_cached)
  have cached: "export_dma_buf ?s1 obj = w"
    using Suc.prems by simp
  obtain results s' where rest: "export_times n dev k args ?s1 = (results, s')"
    by (cases "export_times n dev k args ?s1")
  from Suc.IH [OF cached] rest
  obtain pre where ih: "prime_export_count s' = prime_export_count ?s1"
      "export_dma_buf s' = export_dma_buf ?s1" "length results = n"
      "fd_table s' = pre @ fd_table ?s1" "snd ` set pre \<subseteq> {w}"
      "\<forall>(ret, res) \<in> set results. ret = 0 \<and> map_of (fd_table s') (args_fd res) = Some w"
    by auto
  have bound: "map_of (fd_table s') ?fd = Some w"
  proof -
    have "map_of ((?fd, w) # fd_table s) ?fd = Some w"
      by simp
    from map_of_append_same [OF ih(5) this] show ?thesis
      using ih(4) by simp
  qed
  have tbl: "fd_table s' = (pre @ [(?fd, w)]) @ fd_table s" "snd ` set (pre @ [(?fd, w)]) \<subseteq> {w}"
    using ih(4,5) by auto
  have "\<exists>pre. fd_table s' = pre @ fd_table s \<and> snd ` set pre \<subseteq> {w}"
    using tbl by blast
  then show ?case
    using ih(1,2,3,6) bound
    by (simp add: step rest prime_export_count_def)
qed

text \<open>
  C2. A handle names an object that has no cached wrapper yet, and the driver's export
  callback returns a dma-buf for it. Then \<open>n \<ge> 1\<close> exports of that handle with the same
  flags call the export callback exactly once: the call counter goes up by one however
  large \<open>n\<close> is. The wrapper cached on the object is the one the driver returned, every call
  returns 0, and every descriptor returned is bound to that one dma-buf.
\<close>

theorem export_idempotent:
  assumes "driver_prime dev" and "prime_export dev = Some exp"
    and "object_idr k (args_handle args) = obj" and "obj \<noteq> NULL"
    and "export_dma_buf s obj = NULL"
    and "\<not> IS_ERR_OR_NULL (exp obj (args_flags args))"
    and "1 \<le> n"
  shows "case export_times n dev k args s of (results, s') \<Rightarrow>
           prime_export_count s' = prime_export_count s + 1
           \<and> export_dma_buf s' obj = exp obj (args_flags args)
           \<and> length results = n
           \<and> (\<forall>(ret, res) \<in> set results.
                 ret = 0 \<and> map_of (fd_table s') (args_fd res) = Some (exp obj (args_flags args)))"
proof -
  define w where "w = exp obj (args_flags args)"
  obtain m where n: "n = Suc m"
    using assms(7) by (cases n) auto
  let ?fd = "get_unused_fd (fd_table s)"
  let ?s1 = "s\<lparr>refcount := (refcount s)(obj := refcount s obj + 1),
        export_dma_buf := (export_dma_buf s)(obj := w),
        fd_table := (?fd, w) # fd_table s,
        f_count := (f_count s)(w := f_count s w + 1),
        calls := calls s @ [Gem_object_lookup (args_handle args),
                   Prime_export obj (args_flags args), Dma_buf_fd w]\<rparr>"
  have valid: "\<not> IS_ERR_OR_NULL w" and nonnull: "w \<noteq> NULL"
    using assms(6) by (auto simp: w_def IS_ERR_OR_NULL_def)
  have step: "drm_prime_handle_to_fd_ioctl dev k args s = (0, args\<lparr>args_fd := ?fd\<rparr>, ?s1)"
    using assms(1-5) w_def [symmetric] valid by (rule export_first)
  have cached: "export_dma_buf ?s1 obj = w"
    by simp
  obtain results s' where rest: "export_times m dev k args ?s1 = (results, s')"
    by (cases "export_times m dev k args ?s1")
  from export_times_cached [OF assms(1-4) cached nonnull, of m] rest
  obtain pre where ih: "prime_export_count s' = prime_export_count ?s1"
      "export_dma_buf s' = export_dma_buf ?s1" "length results = m"
      "fd_table s' = pre @ fd_table ?s1" "snd ` set pre \<subseteq> {w}"
      "\<forall>(ret, res) \<in> set results. ret = 0 \<and> map_of (fd_table s') (args_fd res) = Some w"
    by auto
  have bound: "map_of (fd_table s') ?fd = Some w"
  proof -
    have "map_of ((?fd, w) # fd_table s) ?fd = Some w"
      by simp
    from map_of_append_same [OF ih(5) this] show ?thesis
      using ih(4) by simp
  qed
  show ?thesis
    using ih(1,2,3,6) bound
    by (simp add: n step rest prime_export_count_def w_def [symmetric])
qed

theorem export_idempotent_witness:
  "driver_prime dev0 \<and> prime_export dev0 = Some (\<lambda>obj flags. 0x2000)
   \<and> object_idr kernel0 (args_handle args0) = 0x4000 \<and> (0x4000 :: ptr) \<noteq> NULL
   \<and> export_dma_buf state0 0x4000 = NULL \<and> \<not> IS_ERR_OR_NULL 0x2000 \<and> (1::nat) \<le> 3
   \<and> (case export_times 3 dev0 kernel0 args0 state0 of (results, s') \<Rightarrow>
         prime_export_count s' = 1
         \<and> export_dma_buf s' 0x4000 = 0x2000
         \<and> length results = 3
         \<and> (\<forall>(ret, res) \<in> set results. ret = 0 \<and> map_of (fd_table s') (args_fd res) = Some 0x2000))"
proof -
  have h1: "driver_prime dev0" and h2: "prime_export dev0 = Some (\<lambda>obj flags. 0x2000)"
    by (simp_all add: dev0_def)
  have h3: "object_idr kernel0 (args_handle args0) = 0x4000" and h4: "(0x4000 :: ptr) \<noteq> NULL"
    by (simp_all add: kernel0_def NULL_def)
  have h5: "export_dma_buf state0 0x4000 = NULL"
    by (simp add: state0_def)
  have h6: "\<not> IS_ERR_OR_NULL ((\<lambda>obj flags. 0x2000) (0x4000 :: ptr) (args_flags args0))"
    by (simp add: IS_ERR_OR_NULL_def IS_ERR_VALUE_def MAX_ERRNO_def NULL_def)
  have h7: "(1::nat) \<le> 3"
    by simp
  have c0: "prime_export_count state0 = 0"
    by (simp add: prime_export_count_def state0_def)
  show ?thesis
    using export_idempotent [OF h1 h2 h3 h4 h5 h6 h7] h1 h2 h3 h4 h5 h6 c0
    by (auto split: prod.splits)
qed

subsection \<open>The registry over sequences of operations\<close>

lemma at_most_one_member:
  "distinct (map dma_buf prime_fpriv) \<Longrightarrow>
     length (filter (\<lambda>m. dma_buf m = p) prime_fpriv) \<le> 1"
proof (induction prime_fpriv)
  case Nil
  then show ?case by simp
next
  case (Cons member rest)
  have "dma_buf member \<notin> dma_buf ` set rest"
    using Cons.prems by simp
  then have "filter (\<lambda>m. dma_buf m = dma_buf member) rest = []"
    unfolding filter_empty_conv by (metis imageI)
  then show ?case
    using Cons by auto
qed

lemma step_distinct:
  assumes "distinct (map dma_buf (prime s))"
  shows "distinct (map dma_buf (prime (step operation s)))"
proof (cases operation)
  case (Import dev k args)
  then show ?thesis
    using assms import_registry_cases [of dev k args s] by auto
next
  case (Remove dmabuf)
  then show ?thesis
    using assms by (simp add: remove_eq_filter distinct_map_filter)
next
  case Teardown
  then show ?thesis
    by (simp add: destroy_file_private_empty)
qed

lemma run_distinct:
  "distinct (map dma_buf (prime s)) \<Longrightarrow> distinct (map dma_buf (prime (run ops s)))"
  unfolding run_def
  by (induction ops arbitrary: s) (simp_all add: step_distinct)

text \<open>
  C8. Start from the registry as \<^verbatim>\<open>drm_prime_init_file_private\<close> leaves it and run any
  sequence of imports, removals and teardowns, one after the other, with any devices,
  kernel answers and arguments. After every prefix of the sequence the registry holds at
  most one member for each dma-buf address: the dma-buf addresses of its members are
  pairwise distinct.
\<close>

theorem registry_one_member_per_dma_buf:
  "distinct (map dma_buf (prime (run (take n ops) (s\<lparr>prime := drm_prime_init_file_private\<rparr>))))
   \<and> length (filter (\<lambda>m. dma_buf m = p)
        (prime (run (take n ops) (s\<lparr>prime := drm_prime_init_file_private\<rparr>)))) \<le> 1"
proof -
  have "distinct (map dma_buf (prime (s\<lparr>prime := drm_prime_init_file_private\<rparr>)))"
    by (simp add: drm_prime_init_file_private_def)
  then have "distinct (map dma_buf
      (prime (run (take n ops) (s\<lparr>prime := drm_prime_init_file_private\<rparr>))))"
    by (rule run_distinct)
  then show ?thesis
    using at_most_one_member by blast
qed

text \<open>Two imports of the same dma-buf through two descriptors, a removal of another dma-buf
  and a third import leave one member.\<close>

lemma registry_run_example:
  "prime (run [Import dev0 kernel0 args0, Import dev0 kernel0 (args0\<lparr>args_fd := 4\<rparr>),
               Remove 0x9000, Import dev0 kernel0 args0]
            (state0\<lparr>prime := drm_prime_init_file_private\<rparr>))
   = [\<lparr>dma_buf = 0x1000, handle = 7\<rparr>]"
  by (simp add: run_def drm_prime_fd_to_handle_ioctl_def collaborator_defs Let_def
      drm_prime_insert_fd_handle_mapping_def drm_prime_init_file_private_def
      state0_def dev0_def kernel0_def args0_def
      IS_ERR_def IS_ERR_OR_NULL_def IS_ERR_VALUE_def MAX_ERRNO_def NULL_def)

subsection \<open>Scatter table\<close>

lemma for_each_sg_result:
  "0 \<le> i \<Longrightarrow> i \<le> nr_pages \<Longrightarrow> nr_pages = int (length pages) \<Longrightarrow>
   length table = length pages \<Longrightarrow>
   for_each_sg pages nr_pages PAGE_SIZE i table =
     take (nat i) table
       @ map (\<lambda>page. \<lparr>sg_page = page, sg_offset = 0, sg_length = PAGE_SIZE\<rparr>) (drop (nat i) pages)"
proof (induction pages nr_pages PAGE_SIZE i table rule: for_each_sg.induct)
  case (1 pages nr_pages PAGE_SIZE i table)
  show ?case
  proof (cases "i < nr_pages")
    case False
    with "1.prems" have "nat i = length pages"
      by simp
    with False "1.prems" show ?thesis
      by (subst for_each_sg.simps) simp
  next
    case True
    let ?j = "nat i"
    let ?entry = "sg_set_page (table ! ?j) (pages ! ?j) PAGE_SIZE 0"
    have j: "?j < length pages" "nat (i + 1) = Suc ?j"
      using True "1.prems" by simp_all
    have entry: "?entry = \<lparr>sg_page = pages ! ?j, sg_offset = 0, sg_length = PAGE_SIZE\<rparr>"
      by (simp add: sg_set_page_def)
    have "for_each_sg pages nr_pages PAGE_SIZE i table =
        for_each_sg pages nr_pages PAGE_SIZE (i + 1) (table[?j := ?entry])"
      using True by (subst for_each_sg.simps) simp
    also have "\<dots> = take (nat (i + 1)) (table[?j := ?entry])
        @ map (\<lambda>page. \<lparr>sg_page = page, sg_offset = 0, sg_length = PAGE_SIZE\<rparr>)
            (drop (nat (i + 1)) pages)"
      using True "1.prems" by (intro "1.IH") simp_all
    also have "take (nat (i + 1)) (table[?j := ?entry]) = take ?j table @ [?entry]"
      using j "1.prems"(4) by (simp add: take_Suc_conv_app_nth)
    also have "(take ?j table @ [?entry])
        @ map (\<lambda>page. \<lparr>sg_page = page, sg_offset = 0, sg_length = PAGE_SIZE\<rparr>)
            (drop (nat (i + 1)) pages)
        = take ?j table
          @ map (\<lambda>page. \<lparr>sg_page = page, sg_offset = 0, sg_length = PAGE_SIZE\<rparr>) (drop ?j pages)"
      using j by (simp add: entry Cons_nth_drop_Suc [symmetric])
    finally show ?thesis .
  qed
qed

text \<open>
  C6. Given \<open>N \<ge> 1\<close> pages and \<^verbatim>\<open>nr_pages = N\<close>, with the address the allocator hands
  out not in use: when both allocations succeed, \<^verbatim>\<open>drm_prime_pages_to_sg\<close> returns a
  table of exactly \<open>N\<close> entries, entry \<open>i\<close> being page \<open>i\<close> of the input at offset 0 with
  length \<^verbatim>\<open>PAGE_SIZE\<close>; when \<^verbatim>\<open>kzalloc\<close> or \<^verbatim>\<open>sg_alloc_table\<close> fails, it returns
  \<^verbatim>\<open>NULL\<close> and the heap is the one from before the call.
\<close>

theorem pages_to_sg_correct:
  assumes "nr_pages = int (length pages)" and "1 \<le> length pages" and "heap sg = None"
  shows "(sg \<noteq> NULL \<and> ret = 0 \<longrightarrow>
            drm_prime_pages_to_sg sg ret PAGE_SIZE pages nr_pages heap =
              (sg, heap(sg \<mapsto> \<lparr>sgl = map (\<lambda>page. \<lparr>sg_page = page, sg_offset = 0,
                                                   sg_length = PAGE_SIZE\<rparr>) pages\<rparr>))
            \<and> length (map (\<lambda>page. \<lparr>sg_page = page, sg_offset = 0, sg_length = PAGE_SIZE\<rparr>) pages)
                = length pages)
       \<and> (sg = NULL \<or> ret \<noteq> 0 \<longrightarrow>
            drm_prime_pages_to_sg sg ret PAGE_SIZE pages nr_pages heap = (NULL, heap))"
proof -
  let ?zero = "\<lparr>sg_page = NULL, sg_offset = 0, sg_length = 0\<rparr>"
  have loop: "for_each_sg pages nr_pages PAGE_SIZE 0 (replicate (nat nr_pages) ?zero) =
      map (\<lambda>page. \<lparr>sg_page = page, sg_offset = 0, sg_length = PAGE_SIZE\<rparr>) pages"
    using assms(1) for_each_sg_result [of 0 nr_pages pages "replicate (nat nr_pages) ?zero" PAGE_SIZE]
    by simp
  have freed: "heap(sg := None) = heap"
    using assms(3) by (simp add: fun_upd_idem)
  show ?thesis
    by (simp add: drm_prime_pages_to_sg_def kzalloc_sg_table_def sg_alloc_table_def kfree_def
        Let_def loop freed)
qed

theorem pages_to_sg_correct_witness:
  "(3::int) = int (length [0x10000, 0x20000, 0x30000 :: ptr])
   \<and> 1 \<le> length [0x10000, 0x20000, 0x30000 :: ptr]
   \<and> (Map.empty :: sg_heap) 0x8000 = None
   \<and> drm_prime_pages_to_sg 0x8000 0 4096 [0x10000, 0x20000, 0x30000] 3 Map.empty =
        (0x8000, [0x8000 \<mapsto> \<lparr>sgl = [\<lparr>sg_page = 0x10000, sg_offset = 0, sg_length = 4096\<rparr>,
                                     \<lparr>sg_page = 0x20000, sg_offset = 0, sg_length = 4096\<rparr>,
                                     \<lparr>sg_page = 0x30000, sg_offset = 0, sg_length = 4096\<rparr>]\<rparr>])
   \<and> drm_prime_pages_to_sg 0x8000 (- ENOMEM) 4096 [0x10000, 0x20000, 0x30000] 3 Map.empty =
        (NULL, Map.empty)
   \<and> drm_prime_pages_to_sg NULL 0 4096 [0x10000, 0x20000, 0x30000] 3 Map.empty =
        (NULL, Map.empty)"
proof -
  have h1: "(3::int) = int (length [0x10000, 0x20000, 0x30000 :: ptr])"
    and h2: "1 \<le> length [0x10000, 0x20000, 0x30000 :: ptr]"
    and h3: "(Map.empty :: sg_heap) 0x8000 = None"
    and h4: "(Map.empty :: sg_heap) NULL = None"
    by simp_all
  have ne: "(0x8000 :: ptr) \<noteq> NULL" "- ENOMEM \<noteq> 0"
    by (simp_all add: NULL_def ENOMEM_def)
  show ?thesis
    using pages_to_sg_correct [OF h1 h2 h3, where ret = 0 and PAGE_SIZE = 4096]
      pages_to_sg_correct [OF h1 h2 h3, where ret = "- ENOMEM" and PAGE_SIZE = 4096]
      pages_to_sg_correct [OF h1 h2 h4, where ret = 0 and PAGE_SIZE = 4096] ne
    by simp
qed

end
